theory Spec2Isabelle
  imports Main "HOL-Library.FSet"
begin

section \<open>The course repository over three tables\<close>

text \<open>
  The development follows \<^verbatim>\<open>src/repositories/course_repository.py\<close>: the class
  \<^verbatim>\<open>CourseRepository\<close> maps a course object to rows of the tables Courses, Periods
  and Requirements with parameterised SQL statements. Every method becomes a function
  that takes the state of the database and returns the new one.
\<close>

subsection \<open>Data\<close>

text \<open>
  Modelled from the spec: the class \<^verbatim>\<open>entities.course.Course\<close> is imported by the
  repository but its file is not among the sources. The record has the five attributes
  the repository reads and the constructor call in \<^verbatim>\<open>find_by_id\<close> sets: an
  identifier (\<open>-1\<close> for a course that is not persisted yet), a name, a credit count,
  a set of periods and a set of prerequisite course identifiers.
\<close>

record course =
  course_id :: int
  name :: string
  credits :: int
  timing :: "int fset"
  requirements :: "int fset"

type_synonym course_row = "int \<times> string \<times> int"
type_synonym period_row = "int \<times> int"
type_synonym requirement_row = "int \<times> int"

text \<open>
  Modelled from the spec: the schema file is not among the sources. The tables are
  Courses (id, name, credits), Periods (course_id, period) and Requirements
  (course_id, requirement_id), without foreign keys. A table is the list of its rows
  in the order of insertion. The column \<open>id\<close> of Courses is the row id of the table:
  this is what makes \<^verbatim>\<open>cursor.lastrowid\<close> the id of the row inserted without one,
  and the engine refuses a second row with an id that is present.
\<close>

record database =
  Courses :: "course_row list"
  Periods :: "period_row list"
  Requirements :: "requirement_row list"

datatype error = IntegrityError

definition empty_database :: database where
  "empty_database = \<lparr>Courses = [], Periods = [], Requirements = []\<rparr>"

subsection \<open>The SQL statements\<close>

definition course_ids :: "database \<Rightarrow> int list" where
  "course_ids db = map fst (Courses db)"

text \<open>\<^verbatim>\<open>INSERT INTO Courses (id, name, credits) VALUES (?, ?, ?)\<close>\<close>

definition insert_course :: "course_row \<Rightarrow> database \<Rightarrow> error + database" where
  "insert_course row db =
     (if fst row \<in> set (course_ids db) then Inl IntegrityError
      else Inr (db\<lparr>Courses := Courses db @ [row]\<rparr>))"

text \<open>\<^verbatim>\<open>INSERT INTO Periods (course_id, period) VALUES (?, ?)\<close>\<close>

definition insert_period :: "period_row \<Rightarrow> database \<Rightarrow> database" where
  "insert_period row db = db\<lparr>Periods := Periods db @ [row]\<rparr>"

text \<open>\<^verbatim>\<open>INSERT INTO Requirements (course_id, requirement_id) VALUES (?, ?)\<close>\<close>

definition insert_requirement :: "requirement_row \<Rightarrow> database \<Rightarrow> database" where
  "insert_requirement row db = db\<lparr>Requirements := Requirements db @ [row]\<rparr>"

subsection \<open>The methods of \<^verbatim>\<open>CourseRepository\<close>\<close>

text \<open>
  \<^verbatim>\<open>find_timing\<close> and \<^verbatim>\<open>find_requirements\<close> select the rows of one course and
  build a Python set of the second column.
\<close>

definition find_timing :: "database \<Rightarrow> int \<Rightarrow> int fset" where
  "find_timing db i = fset_of_list (map snd (filter (\<lambda>row. fst row = i) (Periods db)))"

definition find_requirements :: "database \<Rightarrow> int \<Rightarrow> int fset" where
  "find_requirements db i =
     fset_of_list (map snd (filter (\<lambda>row. fst row = i) (Requirements db)))"

text \<open>
  \<^verbatim>\<open>find_by_id\<close>: \<^verbatim>\<open>fetchone\<close> gives the first row with the id, or \<^verbatim>\<open>None\<close>.
\<close>

definition find_by_id :: "database \<Rightarrow> int \<Rightarrow> course option" where
  "find_by_id db i =
     (case find (\<lambda>row. fst row = i) (Courses db) of
        None \<Rightarrow> None
      | Some course_data \<Rightarrow>
          Some \<lparr>course_id = i, name = fst (snd course_data), credits = snd (snd course_data),
                timing = find_timing db i, requirements = find_requirements db i\<rparr>)"

text \<open>
  \<^verbatim>\<open>find_all\<close>: the ids in ascending order (\<^verbatim>\<open>ORDER BY id\<close>), each looked up with
  \<^verbatim>\<open>find_by_id\<close>. The comprehension tests the row, never the result of the lookup, so
  the list has one entry per row and its entries are what \<^verbatim>\<open>find_by_id\<close> returns.
\<close>

definition find_all :: "database \<Rightarrow> course option list" where
  "find_all db = map (find_by_id db) (sort (course_ids db))"

text \<open>
  \<^verbatim>\<open>delete\<close>: three \<^verbatim>\<open>DELETE\<close> statements; the third also removes the rows of
  other courses that name the id as their prerequisite.
\<close>

definition delete :: "database \<Rightarrow> int \<Rightarrow> database" where
  "delete db i =
     \<lparr>Courses = filter (\<lambda>row. fst row \<noteq> i) (Courses db),
      Periods = filter (\<lambda>row. fst row \<noteq> i) (Periods db),
      Requirements = filter (\<lambda>row. \<not> (fst row = i \<or> snd row = i)) (Requirements db)\<rparr>"

definition delete_all :: "database \<Rightarrow> database" where
  "delete_all db = \<lparr>Courses = [], Periods = [], Requirements = []\<rparr>"

text \<open>
  \<^verbatim>\<open>__write_timing\<close> and \<^verbatim>\<open>__write_requirements\<close> loop over a Python set and insert
  one row per element. Python fixes no order for the loop; the model takes the
  ascending one. No query of the repository reads these rows in order.
\<close>

definition write_timing :: "database \<Rightarrow> course \<Rightarrow> database" where
  "write_timing db c =
     fold (\<lambda>period. insert_period (course_id c, period)) (sorted_list_of_fset (timing c)) db"

definition write_requirements :: "database \<Rightarrow> course \<Rightarrow> database" where
  "write_requirements db c =
     fold (\<lambda>requirement_id. insert_requirement (course_id c, requirement_id))
       (sorted_list_of_fset (requirements c)) db"

text \<open>
  \<^verbatim>\<open>create\<close>. The first argument is the value of \<^verbatim>\<open>cursor.lastrowid\<close> after the
  insert without an id: the row id the engine gives the new row. The engine chooses it,
  so the model takes it as a parameter. An exception of the driver ends the method:
  the result is \<open>Inl\<close> of the error.
\<close>

definition create :: "int \<Rightarrow> database \<Rightarrow> course \<Rightarrow> error + (database \<times> course)" where
  "create lastrowid db c =
     (if course_id c = - 1 then
        (case insert_course (lastrowid, name c, credits c) db of
           Inl e \<Rightarrow> Inl e
         | Inr db1 \<Rightarrow>
             let c' = c\<lparr>course_id := lastrowid\<rparr>
             in Inr (write_requirements (write_timing db1 c') c', c'))
      else
        (let db0 = (if find_by_id db (course_id c) \<noteq> None then delete db (course_id c) else db)
         in case insert_course (course_id c, name c, credits c) db0 of
              Inl e \<Rightarrow> Inl e
            | Inr db1 \<Rightarrow> Inr (write_requirements (write_timing db1 c) c, c)))"

subsection \<open>Rows and their owner\<close>

definition rows_owned :: "database \<Rightarrow> bool" where
  "rows_owned db \<longleftrightarrow>
     (\<forall>row \<in> set (Periods db). fst row \<in> set (course_ids db)) \<and>
     (\<forall>row \<in> set (Requirements db). fst row \<in> set (course_ids db))"

lemma fold_insert_period:
  "fold (\<lambda>p. insert_period (i, p)) xs db = db\<lparr>Periods := Periods db @ map (Pair i) xs\<rparr>"
  by (induction xs arbitrary: db) (simp_all add: insert_period_def)

lemma fold_insert_requirement:
  "fold (\<lambda>q. insert_requirement (i, q)) xs db = db\<lparr>Requirements := Requirements db @ map (Pair i) xs\<rparr>"
  by (induction xs arbitrary: db) (simp_all add: insert_requirement_def)

lemma write_timing_eq:
  "write_timing db c = db\<lparr>Periods := Periods db @ map (Pair (course_id c)) (sorted_list_of_fset (timing c))\<rparr>"
  by (simp add: write_timing_def fold_insert_period)

lemma write_requirements_eq:
  "write_requirements db c =
     db\<lparr>Requirements := Requirements db @ map (Pair (course_id c)) (sorted_list_of_fset (requirements c))\<rparr>"
  by (simp add: write_requirements_def fold_insert_requirement)

lemma find_by_id_None_iff: "find_by_id db i = None \<longleftrightarrow> i \<notin> set (course_ids db)"
proof -
  have "find (\<lambda>row. fst row = i) rows = None \<longleftrightarrow> i \<notin> fst ` set rows" for rows :: "course_row list"
    by (induction rows) auto
  moreover have "find_by_id db i = None \<longleftrightarrow> find (\<lambda>row. fst row = i) (Courses db) = None"
    by (simp add: find_by_id_def split: option.splits)
  ultimately show ?thesis
    by (simp add: course_ids_def)
qed

lemma course_ids_delete: "set (course_ids (delete db i)) = set (course_ids db) - {i}"
  by (auto simp: course_ids_def delete_def)

lemma find_snoc:
  "find P (xs @ [x]) = (case find P xs of None \<Rightarrow> (if P x then Some x else None) | Some y \<Rightarrow> Some y)"
  by (induction xs) simp_all

lemma create_new:
  assumes "course_id c = - 1" and "r \<notin> set (course_ids db)"
  shows "create r db c =
     Inr (\<lparr>Courses = Courses db @ [(r, name c, credits c)],
           Periods = Periods db @ map (Pair r) (sorted_list_of_fset (timing c)),
           Requirements = Requirements db @ map (Pair r) (sorted_list_of_fset (requirements c))\<rparr>,
          c\<lparr>course_id := r\<rparr>)"
  using assms
  by (simp add: create_def insert_course_def write_timing_eq write_requirements_eq course_ids_def)

lemma create_new_refused:
  assumes "course_id c = - 1" and "r \<in> set (course_ids db)"
  shows "create r db c = Inl IntegrityError"
  using assms by (simp add: create_def insert_course_def)

lemma create_absent:
  assumes "course_id c \<noteq> - 1" and "course_id c \<notin> set (course_ids db)"
  shows "create r db c =
     Inr (\<lparr>Courses = Courses db @ [(course_id c, name c, credits c)],
           Periods = Periods db @ map (Pair (course_id c)) (sorted_list_of_fset (timing c)),
           Requirements =
             Requirements db @ map (Pair (course_id c)) (sorted_list_of_fset (requirements c))\<rparr>,
          c)"
  using assms
  by (simp add: create_def insert_course_def write_timing_eq write_requirements_eq
      find_by_id_None_iff course_ids_def)

lemma create_present:
  assumes "course_id c \<noteq> - 1" and "course_id c \<in> set (course_ids db)"
  shows "create r db c =
     Inr (\<lparr>Courses = Courses (delete db (course_id c)) @ [(course_id c, name c, credits c)],
           Periods = Periods (delete db (course_id c))
             @ map (Pair (course_id c)) (sorted_list_of_fset (timing c)),
           Requirements = Requirements (delete db (course_id c))
             @ map (Pair (course_id c)) (sorted_list_of_fset (requirements c))\<rparr>,
          c)"
proof -
  have "find_by_id db (course_id c) \<noteq> None"
    using assms(2) by (simp add: find_by_id_None_iff)
  moreover have "course_id c \<notin> set (course_ids (delete db (course_id c)))"
    by (simp add: course_ids_delete)
  ultimately show ?thesis
    using assms(1)
    by (simp add: create_def insert_course_def write_timing_eq write_requirements_eq Let_def)
qed


lemma find_by_id_last:
  assumes "i \<notin> set (course_ids db0)" and "Courses db' = Courses db0 @ [(i, n, cr)]"
  shows "find_by_id db' i =
     Some \<lparr>course_id = i, name = n, credits = cr,
           timing = find_timing db' i, requirements = find_requirements db' i\<rparr>"
proof -
  have "find (\<lambda>row. fst row = i) (Courses db0) = None"
    using assms(1) by (force simp: find_None_iff course_ids_def)
  then show ?thesis
    by (simp add: find_by_id_def assms(2) find_snoc)
qed

lemma filter_owned_nil:
  assumes "\<forall>row \<in> set rows. fst row \<noteq> i"
  shows "filter (\<lambda>row. fst row = i) rows = []"
  using assms by (induction rows) auto

lemma filter_Pair_same: "filter (\<lambda>row. fst row = i) (map (Pair i) xs) = map (Pair i) xs"
  by (induction xs) auto

lemma rows_owned_absent:
  assumes "rows_owned db" and "i \<notin> set (course_ids db)"
  shows "filter (\<lambda>row. fst row = i) (Periods db) = []"
    and "filter (\<lambda>row. fst row = i) (Requirements db) = []"
  using assms by (auto simp: rows_owned_def intro!: filter_owned_nil)

lemma delete_owned:
  shows "filter (\<lambda>row. fst row = i) (Periods (delete db i)) = []"
    and "filter (\<lambda>row. fst row = i) (Requirements (delete db i)) = []"
  by (auto simp: delete_def filter_empty_conv)

lemma absent_id_no_row:
  assumes "i \<notin> set (course_ids db)"
  shows "filter (\<lambda>row. fst row = i) (Courses db) = []"
  using assms by (force simp: filter_empty_conv course_ids_def)

text \<open>What create leaves in the tables, in all three cases at once.\<close>

lemma create_Inr_cases:
  assumes "create r db c = Inr (db', c')"
  obtains (new) "course_id c = - 1" "r \<notin> set (course_ids db)"
  | (absent) "course_id c \<noteq> - 1" "course_id c \<notin> set (course_ids db)"
  | (present) "course_id c \<noteq> - 1" "course_id c \<in> set (course_ids db)"
  using assms create_new_refused by fastforce

lemma create_owned_rows:
  assumes "rows_owned db" and "create r db c = Inr (db', c')"
  shows "c' = c\<lparr>course_id := course_id c'\<rparr>"
    and "filter (\<lambda>row. fst row = course_id c') (Courses db') = [(course_id c', name c, credits c)]"
    and "filter (\<lambda>row. fst row = course_id c') (Periods db')
           = map (Pair (course_id c')) (sorted_list_of_fset (timing c))"
    and "filter (\<lambda>row. fst row = course_id c') (Requirements db')
           = map (Pair (course_id c')) (sorted_list_of_fset (requirements c))"
    and "\<exists>db0. course_id c' \<notin> set (course_ids db0) \<and>
           Courses db' = Courses db0 @ [(course_id c', name c, credits c)]"
proof -
  have "c' = c\<lparr>course_id := course_id c'\<rparr> \<and>
    filter (\<lambda>row. fst row = course_id c') (Courses db') = [(course_id c', name c, credits c)] \<and>
    filter (\<lambda>row. fst row = course_id c') (Periods db')
           = map (Pair (course_id c')) (sorted_list_of_fset (timing c)) \<and>
    filter (\<lambda>row. fst row = course_id c') (Requirements db')
           = map (Pair (course_id c')) (sorted_list_of_fset (requirements c)) \<and>
    (\<exists>db0. course_id c' \<notin> set (course_ids db0) \<and>
           Courses db' = Courses db0 @ [(course_id c', name c, credits c)])"
    using assms(2)
  proof (cases rule: create_Inr_cases)
    case new
    have "filter (\<lambda>row. fst row = r) (Courses db) = []"
      using new(2) by (rule absent_id_no_row)
    then show ?thesis
      using assms(2) new rows_owned_absent[OF assms(1) new(2)]
      by (auto simp: create_new filter_Pair_same)
  next
    case absent
    have "filter (\<lambda>row. fst row = course_id c) (Courses db) = []"
      using absent(2) by (rule absent_id_no_row)
    then show ?thesis
      using assms(2) absent rows_owned_absent[OF assms(1) absent(2)]
      by (auto simp: create_absent filter_Pair_same)
  next
    case present
    have "filter (\<lambda>row. fst row = course_id c) (Courses (delete db (course_id c))) = []"
      by (simp add: delete_def filter_empty_conv)
    moreover have "course_id c \<notin> set (course_ids (delete db (course_id c)))"
      by (simp add: course_ids_delete)
    ultimately show ?thesis
      using assms(2) present delete_owned[of "course_id c" db]
      by (auto simp: create_present filter_Pair_same)
  qed
  then show "c' = c\<lparr>course_id := course_id c'\<rparr>"
    and "filter (\<lambda>row. fst row = course_id c') (Courses db') = [(course_id c', name c, credits c)]"
    and "filter (\<lambda>row. fst row = course_id c') (Periods db')
           = map (Pair (course_id c')) (sorted_list_of_fset (timing c))"
    and "filter (\<lambda>row. fst row = course_id c') (Requirements db')
           = map (Pair (course_id c')) (sorted_list_of_fset (requirements c))"
    and "\<exists>db0. course_id c' \<notin> set (course_ids db0) \<and>
           Courses db' = Courses db0 @ [(course_id c', name c, credits c)]"
    by blast+
qed

lemma delete_no_rows:
  shows "i \<notin> fst ` set (Periods (delete db i))"
    and "i \<notin> fst ` set (Requirements (delete db i))"
  by (auto simp: delete_def)




lemma find_by_id_Some:
  assumes "i \<in> set (course_ids db)"
  shows "\<exists>c. find_by_id db i = Some c \<and> course_id c = i"
proof -
  obtain row where "find (\<lambda>row. fst row = i) (Courses db) = Some row"
    using assms find_by_id_None_iff[of db i] by (auto simp: find_by_id_def split: option.splits)
  then show ?thesis
    by (simp add: find_by_id_def)
qed

subsection \<open>The invariant of the tables\<close>

text \<open>
  Every row of Periods and of Requirements belongs to a row of Courses. The empty
  database has the property and every method of the repository keeps it, so it holds in
  every state the repository can bring the database to.
\<close>

lemma rows_owned_empty: "rows_owned empty_database"
  by (simp add: rows_owned_def empty_database_def)

lemma rows_owned_delete_all: "rows_owned (delete_all db)"
  by (simp add: rows_owned_def delete_all_def)

lemma rows_owned_delete:
  assumes "rows_owned db"
  shows "rows_owned (delete db i)"
  using assms by (auto simp: rows_owned_def course_ids_delete) (auto simp: delete_def)

lemma rows_owned_append:
  assumes "rows_owned db0"
  shows "rows_owned \<lparr>Courses = Courses db0 @ [(i, n, cr)],
           Periods = Periods db0 @ map (Pair i) xs,
           Requirements = Requirements db0 @ map (Pair i) ys\<rparr>"
proof -
  have "fst row \<in> set (course_ids db0) \<or> fst row = i" if "row \<in> set (Periods db0)" for row
    using assms that by (simp add: rows_owned_def)
  moreover have "fst row \<in> set (course_ids db0) \<or> fst row = i"
    if "row \<in> set (Requirements db0)" for row
    using assms that by (simp add: rows_owned_def)
  ultimately show ?thesis
    by (auto simp: rows_owned_def course_ids_def)
qed

lemma rows_owned_create:
  assumes "rows_owned db" and "create r db c = Inr (db', c')"
  shows "rows_owned db'"
  using assms(2)
proof (cases rule: create_Inr_cases)
  case new
  have "db' = \<lparr>Courses = Courses db @ [(r, name c, credits c)],
           Periods = Periods db @ map (Pair r) (sorted_list_of_fset (timing c)),
           Requirements = Requirements db @ map (Pair r) (sorted_list_of_fset (requirements c))\<rparr>"
    using assms(2) by (auto simp: create_new[OF new])
  then show ?thesis
    using rows_owned_append[OF assms(1)] by simp
next
  case absent
  have "db' = \<lparr>Courses = Courses db @ [(course_id c, name c, credits c)],
           Periods = Periods db @ map (Pair (course_id c)) (sorted_list_of_fset (timing c)),
           Requirements =
             Requirements db @ map (Pair (course_id c)) (sorted_list_of_fset (requirements c))\<rparr>"
    using assms(2) by (auto simp: create_absent[OF absent])
  then show ?thesis
    using rows_owned_append[OF assms(1)] by simp
next
  case present
  have "db' = \<lparr>Courses = Courses (delete db (course_id c)) @ [(course_id c, name c, credits c)],
           Periods = Periods (delete db (course_id c))
             @ map (Pair (course_id c)) (sorted_list_of_fset (timing c)),
           Requirements = Requirements (delete db (course_id c))
             @ map (Pair (course_id c)) (sorted_list_of_fset (requirements c))\<rparr>"
    using assms(2) by (auto simp: create_present[OF present])
  then show ?thesis
    using rows_owned_append[OF rows_owned_delete[OF assms(1)]] by simp
qed

subsection \<open>What an update leaves of the other courses\<close>

text \<open>
  When \<^verbatim>\<open>create\<close> replaces a stored course, the rows of Courses and of Periods that
  belong to another course \<open>j\<close> stay. Of the Requirements rows of \<open>j\<close>, those that
  name the replaced course as prerequisite are lost.
\<close>

lemma create_present_frame:
  assumes "course_id c \<noteq> - 1" and "course_id c \<in> set (course_ids db)"
    and "create r db c = Inr (db', c')" and "j \<noteq> course_id c"
  shows "filter (\<lambda>row. fst row = j) (Courses db') = filter (\<lambda>row. fst row = j) (Courses db)"
    and "filter (\<lambda>row. fst row = j) (Periods db') = filter (\<lambda>row. fst row = j) (Periods db)"
    and "filter (\<lambda>row. fst row = j) (Requirements db')
           = filter (\<lambda>row. fst row = j \<and> snd row \<noteq> course_id c) (Requirements db)"
proof -
  have none: "filter (\<lambda>row. fst row = j) (map (Pair (course_id c)) xs) = []" for xs :: "int list"
    using assms(4) by (induction xs) auto
  have db': "db' = \<lparr>Courses = Courses (delete db (course_id c)) @ [(course_id c, name c, credits c)],
           Periods = Periods (delete db (course_id c))
             @ map (Pair (course_id c)) (sorted_list_of_fset (timing c)),
           Requirements = Requirements (delete db (course_id c))
             @ map (Pair (course_id c)) (sorted_list_of_fset (requirements c))\<rparr>"
    using assms(3) by (auto simp: create_present[OF assms(1,2)])
  show "filter (\<lambda>row. fst row = j) (Courses db') = filter (\<lambda>row. fst row = j) (Courses db)"
    using assms(4) by (simp add: db' delete_def conj_commute) (metis (mono_tags, lifting) filter_cong)
  show "filter (\<lambda>row. fst row = j) (Periods db') = filter (\<lambda>row. fst row = j) (Periods db)"
    using assms(4) by (simp add: db' delete_def none conj_commute) (metis (mono_tags, lifting) filter_cong)
  show "filter (\<lambda>row. fst row = j) (Requirements db')
           = filter (\<lambda>row. fst row = j \<and> snd row \<noteq> course_id c) (Requirements db)"
    using assms(4) by (simp add: db' delete_def none conj_commute) (metis (mono_tags, lifting) filter_cong)
qed

subsection \<open>Evaluation on concrete tables\<close>

lemmas eval_defs = create_def insert_course_def course_ids_def find_by_id_def delete_def
  write_timing_eq write_requirements_eq sorted_list_of_fset.rep_eq find_timing_def
  find_requirements_def find_all_def rows_owned_def empty_database_def Let_def

section \<open>The claims\<close>

text \<open>
  C1. Saving a course and loading it again by the id of the returned course gives
  the same name, credits, set of periods and set of prerequisites. The database is one
  in which every Periods and Requirements row belongs to a Courses row, as in every
  state the repository produces; \<open>create\<close> returning is the hypothesis
  \<open>create lastrowid db c = Inr (db', c')\<close>.
\<close>

theorem create_find_by_id_roundtrip:
  assumes "rows_owned db" and "create lastrowid db c = Inr (db', c')"
  shows "\<exists>found. find_by_id db' (course_id c') = Some found \<and> name found = name c \<and>
           credits found = credits c \<and> timing found = timing c \<and>
           requirements found = requirements c"
proof -
  note rows = create_owned_rows[OF assms]
  obtain db0 where db0: "course_id c' \<notin> set (course_ids db0)"
    "Courses db' = Courses db0 @ [(course_id c', name c, credits c)]"
    using rows(5) by blast
  have "find_timing db' (course_id c') = timing c"
    by (simp add: find_timing_def rows(3) comp_def)
  moreover have "find_requirements db' (course_id c') = requirements c"
    by (simp add: find_requirements_def rows(4) comp_def)
  ultimately show ?thesis
    by (simp add: find_by_id_last[OF db0])
qed

theorem create_find_by_id_roundtrip_witness:
  "rows_owned empty_database \<and>
   create 1 empty_database
     \<lparr>course_id = - 1, name = ''Ohte'', credits = 5, timing = {|3, 4|}, requirements = {|7|}\<rparr>
   = Inr (\<lparr>Courses = [(1, ''Ohte'', 5)], Periods = [(1, 3), (1, 4)], Requirements = [(1, 7)]\<rparr>,
          \<lparr>course_id = 1, name = ''Ohte'', credits = 5, timing = {|3, 4|}, requirements = {|7|}\<rparr>) \<and>
   (\<exists>found. find_by_id
       \<lparr>Courses = [(1, ''Ohte'', 5)], Periods = [(1, 3), (1, 4)], Requirements = [(1, 7)]\<rparr> 1
       = Some found \<and> name found = ''Ohte'' \<and> credits found = 5 \<and>
       timing found = {|3, 4|} \<and> requirements found = {|7|})"
proof -
  have owned: "rows_owned empty_database"
    by (simp add: rows_owned_def empty_database_def)
  have created: "create 1 empty_database
     \<lparr>course_id = - 1, name = ''Ohte'', credits = 5, timing = {|3, 4|}, requirements = {|7|}\<rparr>
   = Inr (\<lparr>Courses = [(1, ''Ohte'', 5)], Periods = [(1, 3), (1, 4)], Requirements = [(1, 7)]\<rparr>,
          \<lparr>course_id = 1, name = ''Ohte'', credits = 5, timing = {|3, 4|}, requirements = {|7|}\<rparr>)"
    by (simp add: eval_defs)
  show ?thesis
    using create_find_by_id_roundtrip[OF owned created] owned created by simp
qed

text \<open>
  C2. After \<open>delete db i\<close> no row of Courses has the id \<open>i\<close> and no row of Periods
  or of Requirements has \<open>i\<close> as its course id.
\<close>

theorem delete_removes_rows:
  "i \<notin> fst ` set (Courses (delete db i)) \<and>
   i \<notin> fst ` set (Periods (delete db i)) \<and>
   i \<notin> fst ` set (Requirements (delete db i))"
  by (auto simp: delete_def)

theorem delete_removes_rows_witness:
  "1 \<notin> fst ` set (Courses (delete
      \<lparr>Courses = [(2, ''Tira'', 10), (1, ''Ohpe'', 5)], Periods = [(2, 3), (1, 1), (1, 2)],
       Requirements = [(1, 4), (2, 1)]\<rparr> 1)) \<and>
   1 \<notin> fst ` set (Periods (delete
      \<lparr>Courses = [(2, ''Tira'', 10), (1, ''Ohpe'', 5)], Periods = [(2, 3), (1, 1), (1, 2)],
       Requirements = [(1, 4), (2, 1)]\<rparr> 1)) \<and>
   1 \<notin> fst ` set (Requirements (delete
      \<lparr>Courses = [(2, ''Tira'', 10), (1, ''Ohpe'', 5)], Periods = [(2, 3), (1, 1), (1, 2)],
       Requirements = [(1, 4), (2, 1)]\<rparr> 1))"
  by (rule delete_removes_rows)

text \<open>
  C3. An update should leave the rows of every other course as they are. On the tables
  below course 2 has course 1 as prerequisite. Saving course 1 again, with the data it
  already has, deletes the Requirements row \<open>(2, 1)\<close> of course 2: \<^verbatim>\<open>create\<close> calls
  \<^verbatim>\<open>delete\<close>, whose third statement also removes the rows with
  \<^verbatim>\<open>requirement_id\<close> equal to the id, and nothing inserts them again.
\<close>

theorem create_update_drops_incoming_requirement:
  "find_by_id
     \<lparr>Courses = [(1, ''Ohpe'', 5), (2, ''Tira'', 10)], Periods = [], Requirements = [(2, 1)]\<rparr> 2
   = Some \<lparr>course_id = 2, name = ''Tira'', credits = 10, timing = {||}, requirements = {|1|}\<rparr> \<and>
   create 0
     \<lparr>Courses = [(1, ''Ohpe'', 5), (2, ''Tira'', 10)], Periods = [], Requirements = [(2, 1)]\<rparr>
     \<lparr>course_id = 1, name = ''Ohpe'', credits = 5, timing = {||}, requirements = {||}\<rparr>
   = Inr (\<lparr>Courses = [(2, ''Tira'', 10), (1, ''Ohpe'', 5)], Periods = [], Requirements = []\<rparr>,
          \<lparr>course_id = 1, name = ''Ohpe'', credits = 5, timing = {||}, requirements = {||}\<rparr>) \<and>
   find_by_id
     \<lparr>Courses = [(2, ''Tira'', 10), (1, ''Ohpe'', 5)], Periods = [], Requirements = []\<rparr> 2
   = Some \<lparr>course_id = 2, name = ''Tira'', credits = 10, timing = {||}, requirements = {||}\<rparr>"
  by (simp add: eval_defs)

text \<open>
  C4. When the id of \<open>c\<close> is stored already and is not the sentinel \<open>-1\<close>,
  \<open>create\<close> succeeds and replaces the course as a whole: each table is the one left
  by \<open>delete\<close>, which holds no row of \<open>c\<close>, followed by the new rows, one Courses
  row and one row per element of the timing and requirements sets of \<open>c\<close>, in some
  order and without repetition. What was stored before has no part in the new rows.

  The claim as written, for every stored id, fails at the id \<open>-1\<close>: \<^verbatim>\<open>create\<close>
  tests \<^verbatim>\<open>course.id == -1\<close> first and then inserts a new course, so the rows stored
  under \<open>-1\<close> stay. A row with id \<open>-1\<close> comes from the engine: after a course was
  stored with the id \<open>-2\<close>, the next row id it assigns is \<open>-1\<close>.
\<close>

theorem create_replaces_rows:
  assumes "course_id c \<noteq> - 1" and "find_by_id db (course_id c) \<noteq> None"
  shows "\<exists>db' ps rs. create lastrowid db c = Inr (db', c) \<and>
           Courses db' = Courses (delete db (course_id c)) @ [(course_id c, name c, credits c)] \<and>
           Periods db' = Periods (delete db (course_id c)) @ ps \<and>
           distinct ps \<and> set ps = Pair (course_id c) ` fset (timing c) \<and>
           Requirements db' = Requirements (delete db (course_id c)) @ rs \<and>
           distinct rs \<and> set rs = Pair (course_id c) ` fset (requirements c) \<and>
           course_id c \<notin> fst ` set (Courses (delete db (course_id c))) \<and>
           course_id c \<notin> fst ` set (Periods (delete db (course_id c))) \<and>
           course_id c \<notin> fst ` set (Requirements (delete db (course_id c)))"
proof -
  define ps where "ps = map (Pair (course_id c)) (sorted_list_of_fset (timing c))"
  define rs where "rs = map (Pair (course_id c)) (sorted_list_of_fset (requirements c))"
  have "distinct ps" "distinct rs"
    by (simp_all add: ps_def rs_def distinct_map inj_on_def sorted_list_of_fset.rep_eq)
  moreover have "set ps = Pair (course_id c) ` fset (timing c)"
    and "set rs = Pair (course_id c) ` fset (requirements c)"
    by (simp_all add: ps_def rs_def)
  moreover have "course_id c \<in> set (course_ids db)"
    using assms(2) by (simp add: find_by_id_None_iff)
  then have "create lastrowid db c =
      Inr (\<lparr>Courses = Courses (delete db (course_id c)) @ [(course_id c, name c, credits c)],
            Periods = Periods (delete db (course_id c)) @ ps,
            Requirements = Requirements (delete db (course_id c)) @ rs\<rparr>, c)"
    using assms(1) by (simp add: create_present ps_def rs_def)
  moreover have "course_id c \<notin> fst ` set (Courses (delete db (course_id c)))"
    using course_ids_delete[of db "course_id c"] by (simp add: course_ids_def)
  ultimately show ?thesis
    using delete_no_rows[of "course_id c" db] by simp
qed

theorem create_replaces_rows_witness:
  "(1::int) \<noteq> - 1 \<and>
   find_by_id
     \<lparr>Courses = [(1, ''Ohpe'', 5)], Periods = [(1, 1), (1, 2)], Requirements = [(1, 9)]\<rparr> 1 \<noteq> None \<and>
   create 0
     \<lparr>Courses = [(1, ''Ohpe'', 5)], Periods = [(1, 1), (1, 2)], Requirements = [(1, 9)]\<rparr>
     \<lparr>course_id = 1, name = ''Ohpe'', credits = 6, timing = {|2, 3|}, requirements = {||}\<rparr>
   = Inr (\<lparr>Courses = [(1, ''Ohpe'', 6)], Periods = [(1, 2), (1, 3)], Requirements = []\<rparr>,
          \<lparr>course_id = 1, name = ''Ohpe'', credits = 6, timing = {|2, 3|}, requirements = {||}\<rparr>)"
  using create_replaces_rows[of
      "\<lparr>course_id = 1, name = ''Ohpe'', credits = 6, timing = {|2, 3|}, requirements = {||}\<rparr>"
      "\<lparr>Courses = [(1, ''Ohpe'', 5)], Periods = [(1, 1), (1, 2)], Requirements = [(1, 9)]\<rparr>" 0]
  by (simp add: eval_defs)

text \<open>
  The id \<open>-1\<close> is stored by the second call below, where the engine assigns the row id
  \<open>-1\<close> after the row \<open>-2\<close>. The third call saves the course \<open>-1\<close> with a new
  timing: it is not replaced. Its Courses row and its Periods row \<open>(-1, 1)\<close> stay, and
  a second course with the row id \<open>0\<close> is inserted and returned.
\<close>

theorem create_replaces_rows_counterexample:
  "create (- 1)
     \<lparr>Courses = [(- 2, ''Tira'', 10)], Periods = [], Requirements = []\<rparr>
     \<lparr>course_id = - 1, name = ''Ohpe'', credits = 5, timing = {|1|}, requirements = {||}\<rparr>
   = Inr (\<lparr>Courses = [(- 2, ''Tira'', 10), (- 1, ''Ohpe'', 5)], Periods = [(- 1, 1)],
           Requirements = []\<rparr>,
          \<lparr>course_id = - 1, name = ''Ohpe'', credits = 5, timing = {|1|}, requirements = {||}\<rparr>) \<and>
   find_by_id
     \<lparr>Courses = [(- 2, ''Tira'', 10), (- 1, ''Ohpe'', 5)], Periods = [(- 1, 1)],
      Requirements = []\<rparr> (- 1)
   = Some \<lparr>course_id = - 1, name = ''Ohpe'', credits = 5, timing = {|1|}, requirements = {||}\<rparr> \<and>
   create 0
     \<lparr>Courses = [(- 2, ''Tira'', 10), (- 1, ''Ohpe'', 5)], Periods = [(- 1, 1)],
      Requirements = []\<rparr>
     \<lparr>course_id = - 1, name = ''Ohpe'', credits = 6, timing = {|2|}, requirements = {||}\<rparr>
   = Inr (\<lparr>Courses = [(- 2, ''Tira'', 10), (- 1, ''Ohpe'', 5), (0, ''Ohpe'', 6)],
           Periods = [(- 1, 1), (0, 2)], Requirements = []\<rparr>,
          \<lparr>course_id = 0, name = ''Ohpe'', credits = 6, timing = {|2|}, requirements = {||}\<rparr>)"
  by (simp add: eval_defs)

text \<open>
  C5. For a course with id \<open>-1\<close>, \<open>create\<close> appends a Courses row with the row id
  the engine assigned, which no stored row has, and returns the course with that id.
  The returned id is \<open>-1\<close> exactly when the engine's row id is \<open>-1\<close>.

  The claim as written says the returned id is never \<open>-1\<close>. It is \<open>-1\<close> when the
  engine assigns that row id, which it does when the largest stored id is \<open>-2\<close>: the
  first call below stores a course under the id \<open>-2\<close>, the second saves a new course
  and returns it with the id \<open>-1\<close>.
\<close>

theorem create_new_assigns_rowid:
  assumes "course_id c = - 1" and "create lastrowid db c = Inr (db', c')"
  shows "course_id c' = lastrowid \<and> lastrowid \<notin> set (course_ids db) \<and>
         Courses db' = Courses db @ [(lastrowid, name c, credits c)] \<and>
         c' = c\<lparr>course_id := lastrowid\<rparr> \<and>
         (course_id c' = - 1 \<longleftrightarrow> lastrowid = - 1)"
proof -
  have fresh: "lastrowid \<notin> set (course_ids db)"
    using assms create_new_refused by fastforce
  show ?thesis
    using assms(2) fresh by (auto simp: create_new[OF assms(1) fresh])
qed

theorem create_new_assigns_rowid_witness:
  "course_id \<lparr>course_id = - 1, name = ''Ohte'', credits = 5, timing = {|3|}, requirements = {||}\<rparr>
     = - 1 \<and>
   create 3 \<lparr>Courses = [(2, ''Tira'', 10)], Periods = [(2, 3)], Requirements = []\<rparr>
     \<lparr>course_id = - 1, name = ''Ohte'', credits = 5, timing = {|3|}, requirements = {||}\<rparr>
   = Inr (\<lparr>Courses = [(2, ''Tira'', 10), (3, ''Ohte'', 5)], Periods = [(2, 3), (3, 3)],
           Requirements = []\<rparr>,
          \<lparr>course_id = 3, name = ''Ohte'', credits = 5, timing = {|3|}, requirements = {||}\<rparr>) \<and>
   course_id \<lparr>course_id = 3, name = ''Ohte'', credits = 5, timing = {|3|}, requirements = {||}\<rparr>
     \<noteq> - 1"
proof -
  have created: "create 3 \<lparr>Courses = [(2, ''Tira'', 10)], Periods = [(2, 3)], Requirements = []\<rparr>
     \<lparr>course_id = - 1, name = ''Ohte'', credits = 5, timing = {|3|}, requirements = {||}\<rparr>
   = Inr (\<lparr>Courses = [(2, ''Tira'', 10), (3, ''Ohte'', 5)], Periods = [(2, 3), (3, 3)],
           Requirements = []\<rparr>,
          \<lparr>course_id = 3, name = ''Ohte'', credits = 5, timing = {|3|}, requirements = {||}\<rparr>)"
    by (simp add: eval_defs)
  show ?thesis
    using create_new_assigns_rowid[OF _ created] created by simp
qed

theorem create_new_assigns_rowid_counterexample:
  "create 0 empty_database
     \<lparr>course_id = - 2, name = ''Tira'', credits = 10, timing = {||}, requirements = {||}\<rparr>
   = Inr (\<lparr>Courses = [(- 2, ''Tira'', 10)], Periods = [], Requirements = []\<rparr>,
          \<lparr>course_id = - 2, name = ''Tira'', credits = 10, timing = {||}, requirements = {||}\<rparr>) \<and>
   create (- 1)
     \<lparr>Courses = [(- 2, ''Tira'', 10)], Periods = [], Requirements = []\<rparr>
     \<lparr>course_id = - 1, name = ''Ohpe'', credits = 5, timing = {|1|}, requirements = {||}\<rparr>
   = Inr (\<lparr>Courses = [(- 2, ''Tira'', 10), (- 1, ''Ohpe'', 5)], Periods = [(- 1, 1)],
           Requirements = []\<rparr>,
          \<lparr>course_id = - 1, name = ''Ohpe'', credits = 5, timing = {|1|}, requirements = {||}\<rparr>) \<and>
   course_id \<lparr>course_id = - 1, name = ''Ohpe'', credits = 5, timing = {|1|}, requirements = {||}\<rparr>
     = - 1"
  by (simp add: eval_defs)



text \<open>
  C7. No foreign key is enforced: when the requirements of \<open>c\<close> contain an id \<open>q\<close>
  that no Courses row has, \<open>create\<close> succeeds and stores the row \<open>(id, q)\<close>, and
  \<open>q\<close> still matches no Courses row afterwards (unless \<open>q\<close> is the id of \<open>c\<close>
  itself). The only refusal of the model is the engine's, for a row id that is present;
  it cannot occur for a course with an id of its own.
\<close>

theorem create_stores_dangling_requirement:
  assumes "q |\<in>| requirements c" and "find_by_id db q = None"
    and "course_id c = - 1 \<longrightarrow> lastrowid \<notin> set (course_ids db)"
  shows "\<exists>db' c'. create lastrowid db c = Inr (db', c') \<and>
           (course_id c', q) \<in> set (Requirements db') \<and>
           (q \<noteq> course_id c' \<longrightarrow> find_by_id db' q = None)"
proof -
  have q: "q \<notin> set (course_ids db)"
    using assms(2) by (simp add: find_by_id_None_iff)
  consider (new) "course_id c = - 1" "lastrowid \<notin> set (course_ids db)"
    | (absent) "course_id c \<noteq> - 1" "course_id c \<notin> set (course_ids db)"
    | (present) "course_id c \<noteq> - 1" "course_id c \<in> set (course_ids db)"
    using assms(3) by blast
  then show ?thesis
  proof cases
    case new
    show ?thesis
      using assms(1) q by (simp add: create_new[OF new] find_by_id_None_iff course_ids_def)
  next
    case absent
    show ?thesis
      using assms(1) q by (simp add: create_absent[OF absent] find_by_id_None_iff course_ids_def)
  next
    case present
    have "q \<notin> set (course_ids (delete db (course_id c)))"
      using q by (simp add: course_ids_delete)
    then show ?thesis
      using assms(1) by (simp add: create_present[OF present] find_by_id_None_iff course_ids_def)
  qed
qed

theorem create_stores_dangling_requirement_witness:
  "7 |\<in>| requirements
      \<lparr>course_id = 1, name = ''Ohte'', credits = 5, timing = {||}, requirements = {|7|}\<rparr> \<and>
   find_by_id empty_database 7 = None \<and>
   create 0 empty_database
     \<lparr>course_id = 1, name = ''Ohte'', credits = 5, timing = {||}, requirements = {|7|}\<rparr>
   = Inr (\<lparr>Courses = [(1, ''Ohte'', 5)], Periods = [], Requirements = [(1, 7)]\<rparr>,
          \<lparr>course_id = 1, name = ''Ohte'', credits = 5, timing = {||}, requirements = {|7|}\<rparr>) \<and>
   find_by_id \<lparr>Courses = [(1, ''Ohte'', 5)], Periods = [], Requirements = [(1, 7)]\<rparr> 7 = None"
  using create_stores_dangling_requirement[of 7
      "\<lparr>course_id = 1, name = ''Ohte'', credits = 5, timing = {||}, requirements = {|7|}\<rparr>"
      empty_database 0]
  by (simp add: eval_defs)

text \<open>
  C8. \<open>find_all\<close> returns a list of courses, one per row of Courses, whose ids are
  the ids of the rows in ascending order; every entry is what \<open>find_by_id\<close> returns
  for its id.
\<close>

theorem find_all_sorted_one_per_row:
  "\<exists>cs. find_all db = map Some cs \<and> length cs = length (Courses db) \<and>
         map course_id cs = sort (course_ids db) \<and> sorted (map course_id cs) \<and>
         (\<forall>c \<in> set cs. find_by_id db (course_id c) = Some c)"
proof -
  define ids where "ids = sort (course_ids db)"
  define cs where "cs = map (\<lambda>i. the (find_by_id db i)) ids"
  have found: "find_by_id db i = Some (the (find_by_id db i)) \<and> course_id (the (find_by_id db i)) = i"
    if "i \<in> set ids" for i
    using that find_by_id_Some[of i db] by (auto simp: ids_def)
  have ids: "map course_id cs = ids"
    unfolding cs_def using found by (simp add: map_idI)
  have "find_all db = map Some cs"
    unfolding find_all_def cs_def ids_def[symmetric] using found by simp
  moreover have "length cs = length (Courses db)"
    by (simp add: cs_def ids_def course_ids_def)
  moreover have "map course_id cs = sort (course_ids db)" "sorted (map course_id cs)"
    by (simp_all add: ids ids_def)
  moreover have "\<forall>c \<in> set cs. find_by_id db (course_id c) = Some c"
    using found by (auto simp: cs_def)
  ultimately show ?thesis
    by blast
qed

theorem find_all_sorted_one_per_row_witness:
  "find_all \<lparr>Courses = [(2, ''Tira'', 10), (1, ''Ohpe'', 5)], Periods = [(2, 3), (1, 1)],
             Requirements = [(2, 1)]\<rparr>
   = [Some \<lparr>course_id = 1, name = ''Ohpe'', credits = 5, timing = {|1|}, requirements = {||}\<rparr>,
      Some \<lparr>course_id = 2, name = ''Tira'', credits = 10, timing = {|3|}, requirements = {|1|}\<rparr>]"
  using find_all_sorted_one_per_row[of
      "\<lparr>Courses = [(2, ''Tira'', 10), (1, ''Ohpe'', 5)], Periods = [(2, 3), (1, 1)],
        Requirements = [(2, 1)]\<rparr>"]
  by (simp add: eval_defs)

text \<open>
  C9. Deleting twice is deleting once, and deleting an id that no row of the three
  tables mentions leaves the database as it is. \<open>delete\<close> is a total function: no
  statement of it can fail.
\<close>

theorem delete_idempotent:
  "delete (delete db i) i = delete db i \<and>
   (i \<notin> fst ` set (Courses db) \<and> i \<notin> fst ` set (Periods db) \<and>
    i \<notin> fst ` set (Requirements db) \<and> i \<notin> snd ` set (Requirements db)
      \<longrightarrow> delete db i = db)"
proof (intro conjI impI)
  show "delete (delete db i) i = delete db i"
    by (simp add: delete_def)
next
  assume none: "i \<notin> fst ` set (Courses db) \<and> i \<notin> fst ` set (Periods db) \<and>
    i \<notin> fst ` set (Requirements db) \<and> i \<notin> snd ` set (Requirements db)"
  have "filter (\<lambda>row. fst row \<noteq> i) (Courses db) = Courses db"
    using none by (force simp: filter_id_conv)
  moreover have "filter (\<lambda>row. fst row \<noteq> i) (Periods db) = Periods db"
    using none by (force simp: filter_id_conv)
  moreover have "filter (\<lambda>row. \<not> (fst row = i \<or> snd row = i)) (Requirements db) = Requirements db"
    using none by (force simp: filter_id_conv)
  ultimately show "delete db i = db"
    by (simp add: delete_def)
qed

theorem delete_idempotent_witness:
  "delete (delete \<lparr>Courses = [(2, ''Tira'', 10), (1, ''Ohpe'', 5)], Periods = [(2, 3), (1, 1)],
                   Requirements = [(2, 1)]\<rparr> 1) 1
   = delete \<lparr>Courses = [(2, ''Tira'', 10), (1, ''Ohpe'', 5)], Periods = [(2, 3), (1, 1)],
             Requirements = [(2, 1)]\<rparr> 1 \<and>
   delete \<lparr>Courses = [(2, ''Tira'', 10)], Periods = [(2, 3)], Requirements = []\<rparr> 1
   = \<lparr>Courses = [(2, ''Tira'', 10)], Periods = [(2, 3)], Requirements = []\<rparr>"
  using delete_idempotent[of
      "\<lparr>Courses = [(2, ''Tira'', 10), (1, ''Ohpe'', 5)], Periods = [(2, 3), (1, 1)],
        Requirements = [(2, 1)]\<rparr>" 1]
    delete_idempotent[of "\<lparr>Courses = [(2, ''Tira'', 10)], Periods = [(2, 3)], Requirements = []\<rparr>" 1]
  by simp

text \<open>
  C10. For a course with an id other than \<open>-1\<close> that no Courses row has,
  \<open>create\<close> succeeds, appends a Courses row with exactly that id and returns the
  course unchanged.
\<close>

theorem create_absent_keeps_id:
  assumes "course_id c \<noteq> - 1" and "find_by_id db (course_id c) = None"
  shows "\<exists>db'. create lastrowid db c = Inr (db', c) \<and>
           Courses db' = Courses db @ [(course_id c, name c, credits c)]"
  using assms by (simp add: create_absent find_by_id_None_iff)

theorem create_absent_keeps_id_witness:
  "(5::int) \<noteq> - 1 \<and>
   find_by_id \<lparr>Courses = [(2, ''Tira'', 10)], Periods = [(2, 3)], Requirements = []\<rparr> 5 = None \<and>
   create 3 \<lparr>Courses = [(2, ''Tira'', 10)], Periods = [(2, 3)], Requirements = []\<rparr>
     \<lparr>course_id = 5, name = ''Ohte'', credits = 5, timing = {|4|}, requirements = {|2|}\<rparr>
   = Inr (\<lparr>Courses = [(2, ''Tira'', 10), (5, ''Ohte'', 5)], Periods = [(2, 3), (5, 4)],
           Requirements = [(5, 2)]\<rparr>,
          \<lparr>course_id = 5, name = ''Ohte'', credits = 5, timing = {|4|}, requirements = {|2|}\<rparr>)"
  using create_absent_keeps_id[of
      "\<lparr>course_id = 5, name = ''Ohte'', credits = 5, timing = {|4|}, requirements = {|2|}\<rparr>"
      "\<lparr>Courses = [(2, ''Tira'', 10)], Periods = [(2, 3)], Requirements = []\<rparr>" 3]
  by (simp add: eval_defs)

end
